theory Spec2Isabelle
  imports Complex_Main "HOL-Library.AList"
begin

section \<open>JavaScript values used by the sync engine\<close>

text \<open>
  Strings are character lists. The model covers ASCII text: \<open>toLowerCase\<close> folds the
  letters A to Z, \<open>trim\<close> removes the ASCII white space characters, and \<open>length\<close> counts
  characters. A plain JavaScript object used as a dictionary is the list of its entries in
  the order \<open>Object.entries\<close> enumerates them (insertion order for keys that are not array
  indices); assigning a property is \<open>AList.update\<close>: an existing key keeps its place, a
  new key goes to the end. Keys are taken not to clash with the properties that every
  object inherits (\<open>constructor\<close>, \<open>__proto__\<close> and the like).
\<close>

type_synonym 'v object = "(string \<times> 'v) list"

definition toLowerCase_char :: "char \<Rightarrow> char" where
  "toLowerCase_char c =
     (case map_of (zip ''ABCDEFGHIJKLMNOPQRSTUVWXYZ'' ''abcdefghijklmnopqrstuvwxyz'') c of
        Some l \<Rightarrow> l
      | None \<Rightarrow> c)"

definition toLowerCase :: "string \<Rightarrow> string" where
  "toLowerCase s = map toLowerCase_char s"

text \<open>\<open>s.includes(t)\<close>: \<open>t\<close> occurs in \<open>s\<close> as a contiguous substring.\<close>

fun str_includes :: "string \<Rightarrow> string \<Rightarrow> bool" where
  "str_includes [] t = (t = [])"
| "str_includes (c # cs) t = (take (length t) (c # cs) = t \<or> str_includes cs t)"

definition isWhitespace :: "char \<Rightarrow> bool" where
  "isWhitespace c = (c \<in> set [CHR '' '', CHR 0x09, CHR 0x0A, CHR 0x0B, CHR 0x0C, CHR 0x0D])"

definition trim :: "string \<Rightarrow> string" where
  "trim s = rev (dropWhile isWhitespace (rev (dropWhile isWhitespace s)))"

text \<open>JavaScript truthiness of a value that is a string, \<open>null\<close> or \<open>undefined\<close>.\<close>

definition truthy :: "string option \<Rightarrow> bool" where
  "truthy v = (case v of Some s \<Rightarrow> s \<noteq> [] | None \<Rightarrow> False)"

datatype error = TypeError string | Error string

fun message :: "error \<Rightarrow> string" where
  "message (TypeError m) = m"
| "message (Error m) = m"


section \<open>categorize.js: similarity scorer\<close>

text \<open>
  The bigram \<open>Set\<close> of a string. The score is the exact quotient; the source computes its
  nearest double, and every comparison the engine makes on scores (\<open>>\<close> between two scores,
  \<open>>=\<close> against 0.7) has the same outcome on the quotients, whose denominators are string
  lengths.
\<close>

definition bigrams :: "string \<Rightarrow> string set" where
  "bigrams a = set (map (\<lambda>i. take 2 (drop i a)) [0..<length a - 1])"

definition calculateSimilarity :: "string \<Rightarrow> string \<Rightarrow> rat" where
  "calculateSimilarity str1 str2 =
     (if str1 = [] \<or> str2 = [] then 0
      else let a = toLowerCase str1; b = toLowerCase str2 in
        if a = b then 1
        else if length a < 2 \<or> length b < 2 then 0
        else let aBigrams = bigrams a; bBigrams = bigrams b;
                 intersection = {x \<in> aBigrams. x \<in> bBigrams}
             in (2 * of_nat (card intersection)) / of_nat (card aBigrams + card bBigrams))"

text \<open>\<open>findBestMatch\<close> returns \<open>{target, rating}\<close>; \<open>target\<close> stays \<open>null\<close> while no
  candidate has scored above 0.\<close>

definition findBestMatch :: "string \<Rightarrow> string list \<Rightarrow> string option \<times> rat" where
  "findBestMatch target candidates =
     foldl (\<lambda>(best, bestRating) candidate.
              let rating = calculateSimilarity target candidate in
              if rating > bestRating then (Some candidate, rating) else (best, bestRating))
           (None, 0) candidates"


section \<open>memory.js and the module state of categorize.js\<close>

text \<open>
  The state the categorizer reads and writes: the two module-level caches
  (\<open>memoryCache\<close>, \<open>categoriesCache\<close>, \<open>None\<close> for \<open>null\<close>), the memory file
  (\<open>None\<close>: missing or unreadable, which \<open>loadMemory\<close> treats alike), whether writing
  the file succeeds (\<open>saveMemory\<close> logs a failed write and returns), and the answer of the
  categories endpoint (\<open>Inl\<close> the failure message).
\<close>

record category =
  cat_name :: string
  cat_id :: "int option"

record world =
  memoryCache :: "string object option"
  categoriesCache :: "int object option"
  memoryFile :: "string object option"
  diskWritable :: bool
  categoriesApi :: "string + category list"

definition loadMemory :: "world \<Rightarrow> string object" where
  "loadMemory w = (case memoryFile w of Some m \<Rightarrow> m | None \<Rightarrow> [])"

definition saveMemory :: "string object \<Rightarrow> world \<Rightarrow> world" where
  "saveMemory memory w = (if diskWritable w then w\<lparr>memoryFile := Some memory\<rparr> else w)"


section \<open>categorize.js: category resolver\<close>

definition buildCategoriesMap :: "category list \<Rightarrow> int object" where
  "buildCategoriesMap categories =
     foldl (\<lambda>m cat. case cat_id cat of
                       Some i \<Rightarrow> if cat_name cat \<noteq> [] then AList.update (toLowerCase (cat_name cat)) i m else m
                     | None \<Rightarrow> m)
           [] categories"

definition getCategoriesMap :: "world \<Rightarrow> (error + int object) \<times> world" where
  "getCategoriesMap w =
     (case categoriesCache w of
        Some m \<Rightarrow> (Inr m, w)
      | None \<Rightarrow>
          (case categoriesApi w of
             Inl msg \<Rightarrow> (Inl (Error (''Failed to fetch categories: '' @ msg)), w)
           | Inr categories \<Rightarrow>
               (let m = buildCategoriesMap categories
                in (Inr m, w\<lparr>categoriesCache := Some m\<rparr>))))"

text \<open>\<open>categories[name.toLowerCase()] || null\<close>: an id of 0 is falsy and reads as \<open>null\<close>.\<close>

definition getCategoryId :: "string \<Rightarrow> world \<Rightarrow> (error + int option) \<times> world" where
  "getCategoryId categoryName w =
     (if categoryName = [] then (Inr None, w)
      else case getCategoriesMap w of
             (Inl e, w') \<Rightarrow> (Inl e, w')
           | (Inr categories, w') \<Rightarrow>
               (Inr (case map_of categories (toLowerCase categoryName) of
                       Some i \<Rightarrow> if i = 0 then None else Some i
                     | None \<Rightarrow> None), w'))"


section \<open>categorize.js: categorization engine\<close>

definition forbidden :: "char \<Rightarrow> bool" where
  "forbidden c = (c \<in> set [CHR ''<'', CHR ''>'', CHR 0x22, CHR 0x27, CHR ''/'', CHR 0x5C])"

definition sanitizePayee :: "string \<Rightarrow> string" where
  "sanitizePayee payee =
     (if payee = [] then []
      else take 255 (trim (filter (\<lambda>c. \<not> forbidden c) payee)))"

datatype matchSource = config_rule | memory_exact | memory_fuzzy

text \<open>The three matching steps; each takes and returns the pair
  \<open>(categoryName, matchSource)\<close> of the source's two local variables.\<close>

definition matchRules :: "string \<Rightarrow> string object \<Rightarrow> string option \<times> matchSource option" where
  "matchRules lowerPayee categoryRules =
     (case find (\<lambda>(match, category). str_includes lowerPayee (toLowerCase match)) categoryRules of
        Some (match, category) \<Rightarrow> (Some category, Some config_rule)
      | None \<Rightarrow> (None, None))"

definition matchMemoryExact ::
  "string \<Rightarrow> string object \<Rightarrow> string option \<times> matchSource option \<Rightarrow> string option \<times> matchSource option" where
  "matchMemoryExact lowerPayee memory found =
     (if truthy (fst found) then found
      else case find (\<lambda>(memorizedPayee, category). str_includes lowerPayee (toLowerCase memorizedPayee)) memory of
             Some (memorizedPayee, category) \<Rightarrow> (Some category, Some memory_exact)
           | None \<Rightarrow> found)"

definition matchMemoryFuzzy ::
  "string \<Rightarrow> string object \<Rightarrow> string option \<times> matchSource option \<Rightarrow> string option \<times> matchSource option" where
  "matchMemoryFuzzy sanitizedPayee memory found =
     (if \<not> truthy (fst found) \<and> memory \<noteq> [] then
        (case findBestMatch sanitizedPayee (map fst memory) of
           (target, rating) \<Rightarrow>
             if rating \<ge> 7 / 10
             then (case target of Some t \<Rightarrow> map_of memory t | None \<Rightarrow> None, Some memory_fuzzy)
             else found)
      else found)"

definition resolveCategory ::
  "string \<Rightarrow> string object \<Rightarrow> string object \<Rightarrow> string option \<times> matchSource option" where
  "resolveCategory sanitizedPayee categoryRules memory =
     (let lowerPayee = toLowerCase sanitizedPayee
      in matchMemoryFuzzy sanitizedPayee memory
           (matchMemoryExact lowerPayee memory (matchRules lowerPayee categoryRules)))"

text \<open>Step 4: save a successful match to memory, except config rules.\<close>

definition learn :: "string \<Rightarrow> string option \<times> matchSource option \<Rightarrow> world \<Rightarrow> world" where
  "learn sanitizedPayee found w =
     (case (fst found, memoryCache w) of
        (Some categoryName, Some memory) \<Rightarrow>
          if categoryName \<noteq> [] \<and> snd found \<noteq> Some config_rule
             \<and> map_of memory sanitizedPayee \<noteq> Some categoryName
          then (let memory' = AList.update sanitizedPayee categoryName memory
                in saveMemory memory' (w\<lparr>memoryCache := Some memory'\<rparr>))
          else w
      | _ \<Rightarrow> w)"

text \<open>Step 5: look the category id up; a failed lookup is logged and gives \<open>null\<close>.\<close>

definition lookupCategory :: "string option \<Rightarrow> world \<Rightarrow> (error + int option) \<times> world" where
  "lookupCategory categoryName w =
     (case categoryName of
        None \<Rightarrow> (Inr None, w)
      | Some name \<Rightarrow>
          if name = [] then (Inr None, w)
          else (case getCategoryId name w of
                  (Inr categoryId, w') \<Rightarrow> (Inr categoryId, w')
                | (Inl err, w') \<Rightarrow> (Inr None, w')))"

text \<open>
  \<open>categoryRules\<close> is \<open>None\<close> when the configuration holds \<open>null\<close> (which passes
  \<open>loadConfig\<close>'s \<open>typeof ... === 'object'\<close> test); \<open>Object.entries(null)\<close> then raises
  a \<open>TypeError\<close>, after the memory has been loaded.
\<close>

definition assignCategoryId ::
  "string \<Rightarrow> string object option \<Rightarrow> world \<Rightarrow> (error + int option) \<times> world" where
  "assignCategoryId payee categoryRules w =
     (if payee = [] then (Inr None, w)
      else let sanitizedPayee = sanitizePayee payee in
        if sanitizedPayee = [] then (Inr None, w)
        else let memory = (case memoryCache w of Some m \<Rightarrow> m | None \<Rightarrow> loadMemory w);
                 w1 = w\<lparr>memoryCache := Some memory\<rparr>
             in case categoryRules of
                  None \<Rightarrow> (Inl (TypeError ''Cannot convert undefined or null to object''), w1)
                | Some rules \<Rightarrow>
                    (let found = resolveCategory sanitizedPayee rules memory
                     in lookupCategory (fst found) (learn sanitizedPayee found w1)))"


section \<open>utils.js\<close>

text \<open>
  Amounts are JavaScript numbers. Their type is the parameter \<open>'n\<close>, and the three
  operations of the runtime that the engine applies to opaque data are taken together as a
  parameter: \<open>Number.prototype.toFixed(2)\<close>, the rendering of a number inside a template
  literal, and the SHA-256 hex digest of a text.
\<close>

record 'n platform =
  toFixed2 :: "'n \<Rightarrow> string"
  numToString :: "'n \<Rightarrow> string"
  sha256hex :: "string \<Rightarrow> string"

record 'n movement =
  date :: string
  amount :: 'n
  payee :: string
  reference :: "string option"

text \<open>The text that is hashed: \<open>`${date}-${amount}-${payee}-${reference || ''}`\<close>.\<close>

definition fingerprintKey :: "'n platform \<Rightarrow> 'n movement \<Rightarrow> string" where
  "fingerprintKey P transaction =
     date transaction @ ''-'' @ numToString P (amount transaction) @ ''-'' @ payee transaction
       @ ''-'' @ (case reference transaction of Some r \<Rightarrow> r | None \<Rightarrow> [])"

definition generateTransactionFingerprint :: "'n platform \<Rightarrow> 'n movement \<Rightarrow> string" where
  "generateTransactionFingerprint P transaction = sha256hex P (fingerprintKey P transaction)"

text \<open>
  \<open>withRetry fn maxRetries shouldRetry\<close> over a state: the first argument of the model
  counts the retries that are left. The delay between attempts is not modelled.
\<close>

fun withRetry ::
  "('w \<Rightarrow> (error + 'a) \<times> 'w) \<Rightarrow> nat \<Rightarrow> (error \<Rightarrow> bool) option \<Rightarrow> 'w \<Rightarrow> (error + 'a) \<times> 'w" where
  "withRetry fn 0 shouldRetry w = fn w"
| "withRetry fn (Suc n) shouldRetry w =
     (case fn w of
        (Inr v, w') \<Rightarrow> (Inr v, w')
      | (Inl e, w') \<Rightarrow>
          (case shouldRetry of
             None \<Rightarrow> withRetry fn n shouldRetry w'
           | Some p \<Rightarrow> if p e then withRetry fn n shouldRetry w' else (Inl e, w')))"

text \<open>\<open>batchArray\<close>; \<open>sync\<close> calls it with 50. (For a batch size of 0 and a non-empty
  array the source's loop does not end; the model has no batches there.)\<close>

function batchArray :: "'a list \<Rightarrow> nat \<Rightarrow> 'a list list" where
  "batchArray array batchSize =
     (if array = [] \<or> batchSize = 0 then []
      else take batchSize array # batchArray (drop batchSize array) batchSize)"
  by pat_completeness auto
termination
  by (relation "measure (\<lambda>(array, batchSize). length array)") auto

declare batchArray.simps [simp del]


section \<open>sync.js\<close>

text \<open>An existing Lunch Money transaction; \<open>fetchTransactions\<close> fills in the date and
  the amount only, the other fields that \<open>sync\<close> reads are then \<open>undefined\<close>.\<close>

record 'n lm_transaction =
  lm_date :: string
  lm_amount :: 'n
  lm_payee :: "string option"
  lm_external_id :: "string option"
  lm_id :: "string option"

record 'n transaction =
  t_date :: string
  t_amount :: string
  t_payee :: string
  t_currency :: string
  category_id :: "int option"
  asset_id :: "'n option"
  external_id :: "string option"

datatype dup_method = method_fingerprint | method_simple

record duplicateInfo =
  d_date :: string
  d_amount :: string
  d_payee :: string
  d_method :: dup_method

datatype step = categorization | processing

record 'n processingError =
  pe_transaction :: "'n movement"
  pe_error :: string
  pe_step :: step

record insertionError =
  batchIndex :: nat
  batchSize :: nat
  ie_error :: string

text \<open>The configuration; \<open>lunchmoneyAssetId\<close> holds the number \<open>parseInt\<close> reads from
  the configured id, \<open>None\<close> when no id is configured.\<close>

record 'n config =
  gmailConfigured :: bool
  categoryRules :: "string object option"
  currency :: string
  lunchmoneyAssetId :: "'n option"

text \<open>The outcome of each remote call of a run, after its retries: the Gmail fetch, the
  fetch of the existing transactions, and the insertion of a batch (by batch index).\<close>

record 'n remote =
  gmailFetch :: "error + 'n movement list"
  lmFetch :: "error + 'n lm_transaction list"
  postTransactions :: "nat \<Rightarrow> 'n transaction list \<Rightarrow> error option"

text \<open>The local variables of the loop over the movements, and the categorizer's state.\<close>

record 'n run =
  existingSimpleKeys :: "string set"
  existingFingerprints :: "string set"
  newTransactions :: "'n transaction list"
  skippedDuplicates :: "duplicateInfo list"
  processingErrors :: "'n processingError list"
  state :: world

definition simpleKeyOf :: "'n platform \<Rightarrow> string \<Rightarrow> 'n \<Rightarrow> string" where
  "simpleKeyOf P d a = d @ ''-'' @ toFixed2 P a"

definition orElse :: "string option \<Rightarrow> string option \<Rightarrow> string option" where
  "orElse a b = (if truthy a then a else b)"

definition existingFingerprint :: "'n platform \<Rightarrow> 'n lm_transaction \<Rightarrow> string" where
  "existingFingerprint P tx =
     generateTransactionFingerprint P
       \<lparr>date = lm_date tx, amount = lm_amount tx,
        payee = (case lm_payee tx of Some p \<Rightarrow> p | None \<Rightarrow> []),
        reference = orElse (lm_external_id tx) (lm_id tx)\<rparr>"

definition toTransaction :: "'n config \<Rightarrow> 'n platform \<Rightarrow> 'n movement \<Rightarrow> int option \<Rightarrow> 'n transaction" where
  "toTransaction cfg P movement categoryId =
     \<lparr>t_date = date movement, t_amount = toFixed2 P (amount movement), t_payee = payee movement,
      t_currency = toLowerCase (currency cfg),
      category_id = (case categoryId of Some i \<Rightarrow> if i = 0 then None else Some i | None \<Rightarrow> None),
      asset_id = lunchmoneyAssetId cfg,
      external_id = (if truthy (reference movement) then reference movement else None)\<rparr>"

text \<open>
  The body of the loop over the movements. With a movement whose amount is a number and a
  currency that is a string, as the fetchers and \<open>loadConfig\<close> deliver them, the only call
  in the body that can raise is the categorization, which has a handler of its own.
\<close>

definition processMovement :: "'n platform \<Rightarrow> 'n config \<Rightarrow> 'n run \<Rightarrow> 'n movement \<Rightarrow> 'n run" where
  "processMovement P cfg r movement =
     (let simpleKey = simpleKeyOf P (date movement) (amount movement);
          fingerprint = generateTransactionFingerprint P movement
      in if simpleKey \<in> existingSimpleKeys r \<or> fingerprint \<in> existingFingerprints r then
           r\<lparr>skippedDuplicates := skippedDuplicates r @
                [\<lparr>d_date = date movement, d_amount = toFixed2 P (amount movement),
                  d_payee = payee movement,
                  d_method = (if fingerprint \<in> existingFingerprints r
                              then method_fingerprint else method_simple)\<rparr>]\<rparr>
         else
           (case withRetry (assignCategoryId (payee movement) (categoryRules cfg)) 2 None (state r) of
              (result, w') \<Rightarrow>
                r\<lparr>newTransactions := newTransactions r @
                     [toTransaction cfg P movement (case result of Inr categoryId \<Rightarrow> categoryId | Inl err \<Rightarrow> None)],
                  existingSimpleKeys := insert simpleKey (existingSimpleKeys r),
                  existingFingerprints := insert fingerprint (existingFingerprints r),
                  processingErrors := processingErrors r @
                     (case result of
                        Inl err \<Rightarrow> [\<lparr>pe_transaction = movement, pe_error = message err, pe_step = categorization\<rparr>]
                      | Inr categoryId \<Rightarrow> []),
                  state := w'\<rparr>))"

definition initialRun :: "'n platform \<Rightarrow> 'n lm_transaction list \<Rightarrow> world \<Rightarrow> 'n run" where
  "initialRun P existing w =
     \<lparr>existingSimpleKeys = set (map (\<lambda>tx. simpleKeyOf P (lm_date tx) (lm_amount tx)) existing),
      existingFingerprints = set (map (existingFingerprint P) existing),
      newTransactions = [], skippedDuplicates = [], processingErrors = [], state = w\<rparr>"

definition processMovements :: "'n platform \<Rightarrow> 'n config \<Rightarrow> 'n run \<Rightarrow> 'n movement list \<Rightarrow> 'n run" where
  "processMovements P cfg r movements = foldl (processMovement P cfg) r movements"

text \<open>The insertion loop: the pair is \<open>(totalInserted, insertionErrors)\<close>.\<close>

definition insertBatches ::
  "(nat \<Rightarrow> 'n transaction list \<Rightarrow> error option) \<Rightarrow> 'n transaction list list \<Rightarrow> nat \<times> insertionError list" where
  "insertBatches post batches =
     foldl (\<lambda>(totalInserted, insertionErrors) (i, batch).
              case post i batch of
                None \<Rightarrow> (totalInserted + length batch, insertionErrors)
              | Some err \<Rightarrow>
                  (totalInserted,
                   insertionErrors @ [\<lparr>batchIndex = i, batchSize = length batch, ie_error = message err\<rparr>]))
           (0, []) (zip [0..<length batches] batches)"

record 'n summary =
  success :: bool
  processed :: nat
  inserted :: nat
  skipped :: nat
  errors :: nat
  dryRun :: bool
  batches :: "nat option"
  insertionErrors :: "insertionError list option"
  summaryProcessingErrors :: "'n processingError list option"

text \<open>\<open>sync\<close> returns \<open>undefined\<close> (\<open>None\<close>) when there is no movement or the fetch of the
  existing transactions fails, and a summary otherwise.\<close>

definition sync ::
  "'n platform \<Rightarrow> 'n remote \<Rightarrow> 'n config \<Rightarrow> bool \<Rightarrow> world \<Rightarrow> 'n summary option \<times> world" where
  "sync P net cfg isDryRun w =
     (let movements = (if gmailConfigured cfg
                       then (case gmailFetch net of Inr gmailTx \<Rightarrow> gmailTx | Inl err \<Rightarrow> [])
                       else [])
      in if movements = [] then (None, w)
         else case lmFetch net of
                Inl err \<Rightarrow> (None, w)
              | Inr existing \<Rightarrow>
                  (let r = processMovements P cfg (initialRun P existing w) movements in
                   if newTransactions r = [] then
                     (Some \<lparr>success = True, processed = length movements, inserted = 0,
                            skipped = length (skippedDuplicates r),
                            errors = length (processingErrors r), dryRun = False,
                            batches = None, insertionErrors = None,
                            summaryProcessingErrors = None\<rparr>, state r)
                   else if isDryRun then
                     (Some \<lparr>success = True, processed = length movements,
                            inserted = length (newTransactions r),
                            skipped = length (skippedDuplicates r),
                            errors = length (processingErrors r), dryRun = True,
                            batches = None, insertionErrors = None,
                            summaryProcessingErrors = None\<rparr>, state r)
                   else
                     (let bs = batchArray (newTransactions r) 50 in
                      case insertBatches (postTransactions net) bs of
                        (totalInserted, errs) \<Rightarrow>
                          (Some \<lparr>success = (length errs = 0), processed = length movements,
                                 inserted = totalInserted,
                                 skipped = length (skippedDuplicates r),
                                 errors = length (processingErrors r) + length errs,
                                 dryRun = False, batches = Some (length bs),
                                 insertionErrors = Some errs,
                                 summaryProcessingErrors = Some (processingErrors r)\<rparr>, state r))))"


section \<open>learnLunchMoney.js\<close>

record history_tx =
  h_payee :: "string option"
  h_category_name :: "string option"

definition learnable :: "history_tx \<Rightarrow> bool" where
  "learnable tx =
     (case (h_payee tx, h_category_name tx) of
        (Some p, Some c) \<Rightarrow> p \<noteq> [] \<and> c \<noteq> [] \<and> trim p \<noteq> [] \<and> trim c \<noteq> []
      | _ \<Rightarrow> False)"

text \<open>\<open>categoryStats[payee][category]++\<close>, creating the two entries when they are missing.\<close>

definition recordCategory :: "string \<Rightarrow> string \<Rightarrow> nat object object \<Rightarrow> nat object object" where
  "recordCategory p c categoryStats =
     (let categories = (case map_of categoryStats p of Some cs \<Rightarrow> cs | None \<Rightarrow> []);
          count = (case map_of categories c of Some n \<Rightarrow> n | None \<Rightarrow> 0)
      in AList.update p (AList.update c (count + 1) categories) categoryStats)"

definition collectStats :: "history_tx list \<Rightarrow> nat object object" where
  "collectStats history =
     foldl (\<lambda>categoryStats tx.
              case (h_payee tx, h_category_name tx) of
                (Some p, Some c) \<Rightarrow>
                  if learnable tx then recordCategory (trim p) (trim c) categoryStats
                  else categoryStats
              | _ \<Rightarrow> categoryStats)
           [] history"

text \<open>The inner loop: the pair is \<open>(maxCount, preferredCategory)\<close>.\<close>

definition preferredCategory :: "nat object \<Rightarrow> nat \<times> string option" where
  "preferredCategory categories =
     foldl (\<lambda>(maxCount, preferred) (category, count).
              if count > maxCount then (count, Some category) else (maxCount, preferred))
           (0, None) categories"

definition buildMemory :: "nat object object \<Rightarrow> string object" where
  "buildMemory categoryStats =
     foldl (\<lambda>memory (p, categories).
              case preferredCategory categories of
                (maxCount, Some category) \<Rightarrow>
                  if category \<noteq> [] \<and> maxCount \<ge> 2 then AList.update p category memory else memory
              | (maxCount, None) \<Rightarrow> memory)
           [] categoryStats"

text \<open>The first argument is the outcome of fetching the history (after retries).\<close>

definition buildMemoryFromLunchMoney ::
  "error + history_tx list \<Rightarrow> bool \<Rightarrow> world \<Rightarrow> (error + string object) \<times> world" where
  "buildMemoryFromLunchMoney fetched saveToFile w =
     (case fetched of
        Inl err \<Rightarrow> (Inl err, w)
      | Inr history \<Rightarrow>
          (let memory = buildMemory (collectStats history)
           in (Inr memory, if saveToFile then saveMemory memory w else w)))"


section \<open>Notions used in the statements\<close>

text \<open>The memory as the categorizer sees it: the cache once it is loaded, the content of
  the file before.\<close>

definition memoryView :: "world \<Rightarrow> string object" where
  "memoryView w = (case memoryCache w of Some m \<Rightarrow> m | None \<Rightarrow> loadMemory w)"












section \<open>Concrete inputs\<close>

definition demoCategories :: "category list" where
  "demoCategories =
     [\<lparr>cat_name = ''Shopping'', cat_id = Some 11\<rparr>, \<lparr>cat_name = ''Food'', cat_id = Some 12\<rparr>,
      \<lparr>cat_name = ''Coffee'', cat_id = Some 13\<rparr>, \<lparr>cat_name = ''Misc'', cat_id = Some 14\<rparr>]"

definition demoWorld :: world where
  "demoWorld = \<lparr>memoryCache = None, categoriesCache = None,
                 memoryFile = Some [(''acme corp'', ''Food'')], diskWritable = True,
                 categoriesApi = Inr demoCategories\<rparr>"


definition offlineWorld :: world where
  "offlineWorld = demoWorld\<lparr>categoriesApi := Inl ''Network Error''\<rparr>"

text \<open>
  Whole-number amounts: an integer \<open>n\<close> is rendered \<open>n\<close> in a template literal and
  \<open>n.00\<close> by \<open>toFixed(2)\<close>. The digest is stood for by the hashed text itself, which is
  injective.
\<close>

function natToString :: "nat \<Rightarrow> string" where
  "natToString n =
     (if n < 10 then [''0123456789'' ! n]
      else natToString (n div 10) @ [''0123456789'' ! (n mod 10)])"
  by pat_completeness auto
termination
  by (relation "measure id") auto

declare natToString.simps [simp del]

definition wholeToString :: "int \<Rightarrow> string" where
  "wholeToString n = (if n < 0 then ''-'' @ natToString (nat (- n)) else natToString (nat n))"

definition wholeAmounts :: "int platform" where
  "wholeAmounts = \<lparr>toFixed2 = (\<lambda>n. wholeToString n @ ''.00''), numToString = wholeToString,
                    sha256hex = (\<lambda>text. text)\<rparr>"

definition nullRulesConfig :: "int config" where
  "nullRulesConfig = \<lparr>gmailConfigured = True, categoryRules = None, currency = ''CLP'',
                       lunchmoneyAssetId = None\<rparr>"


definition uberTrip :: "int movement" where
  "uberTrip = \<lparr>date = ''2024-01-01'', amount = - 4500, payee = ''UBER TRIP'',
                reference = Some ''gmail-1''\<rparr>"



definition gmailOnly :: "int movement list \<Rightarrow> int remote" where
  "gmailOnly movements = \<lparr>gmailFetch = Inr movements, lmFetch = Inr [],
                           postTransactions = (\<lambda>i batch. None)\<rparr>"

definition insertFails :: "int movement list \<Rightarrow> int remote" where
  "insertFails movements = \<lparr>gmailFetch = Inr movements, lmFetch = Inr [],
                             postTransactions = (\<lambda>i batch. Some (Error ''Request failed with status code 500''))\<rparr>"



definition cafeBar :: history_tx where
  "cafeBar = \<lparr>h_payee = Some ''Cafe / Bar'', h_category_name = Some ''Food''\<rparr>"

definition longPayee :: string where
  "longPayee = replicate 254 (CHR ''a'') @ '' b''"


definition aaaWorld :: world where
  "aaaWorld = demoWorld\<lparr>memoryFile := Some [(''aaa'', ''Food'')]\<rparr>"


section \<open>Similarity scorer: properties\<close>















section \<open>Categorization engine: properties\<close>





lemma getCategoryId_memory:
  "getCategoryId name w = (res, w') \<Longrightarrow>
     memoryCache w' = memoryCache w \<and> memoryFile w' = memoryFile w"
  by (auto simp: getCategoryId_def getCategoriesMap_def Let_def
        split: option.splits sum.splits prod.splits if_splits)

lemma lookupCategory_memory:
  "lookupCategory cn w = (res, w') \<Longrightarrow>
     memoryCache w' = memoryCache w \<and> memoryFile w' = memoryFile w"
  by (auto simp: lookupCategory_def split: option.splits sum.splits prod.splits if_splits
        dest: getCategoryId_memory)

lemma learn_cases:
  "memoryCache w = Some mem \<Longrightarrow>
   learn sp found w =
     (if truthy (fst found) \<and> snd found \<noteq> Some config_rule \<and> map_of mem sp \<noteq> fst found
      then saveMemory (AList.update sp (the (fst found)) mem)
             (w\<lparr>memoryCache := Some (AList.update sp (the (fst found)) mem)\<rparr>)
      else w)"
  by (auto simp: learn_def truthy_def Let_def split: option.splits)

lemma sanitizePayee_nonempty: "sanitizePayee rawPayee \<noteq> [] \<Longrightarrow> rawPayee \<noteq> []"
  by (auto simp: sanitizePayee_def)

lemma assignCategoryId_memory:
  assumes "sanitizePayee rawPayee \<noteq> []"
  shows "memoryCache (snd (assignCategoryId rawPayee (Some rules) w))
           = memoryCache (learn (sanitizePayee rawPayee)
                (resolveCategory (sanitizePayee rawPayee) rules (memoryView w))
                (w\<lparr>memoryCache := Some (memoryView w)\<rparr>))
       \<and> memoryFile (snd (assignCategoryId rawPayee (Some rules) w))
           = memoryFile (learn (sanitizePayee rawPayee)
                (resolveCategory (sanitizePayee rawPayee) rules (memoryView w))
                (w\<lparr>memoryCache := Some (memoryView w)\<rparr>))"
proof -
  let ?sp = "sanitizePayee rawPayee"
  let ?found = "resolveCategory ?sp rules (memoryView w)"
  let ?w2 = "learn ?sp ?found (w\<lparr>memoryCache := Some (memoryView w)\<rparr>)"
  obtain res w' where l: "lookupCategory (fst ?found) ?w2 = (res, w')"
    by (cases "lookupCategory (fst ?found) ?w2")
  have "assignCategoryId rawPayee (Some rules) w = (res, w')"
    using assms sanitizePayee_nonempty[OF assms] l
    by (simp add: assignCategoryId_def Let_def memoryView_def)
  with lookupCategory_memory[OF l] show ?thesis by simp
qed






text \<open>
  Claim C5, as amended. When the categories are not cached and their fetch fails,
  \<open>getCategoryId\<close> raises the error \<open>Failed to fetch categories: ...\<close> for every non-empty
  name. \<open>assignCategoryId\<close> catches it: the call returns \<open>null\<close> as its ordinary result,
  and the categories cache stays empty, so that the next lookup fetches again.
\<close>

theorem category_fetch_failure_is_caught:
  assumes "categoriesCache w = None" and "categoriesApi w = Inl msg"
  shows "(\<forall>name. name \<noteq> [] \<longrightarrow>
            getCategoryId name w = (Inl (Error (''Failed to fetch categories: '' @ msg)), w))
       \<and> fst (assignCategoryId rawPayee (Some rules) w) = Inr None
       \<and> categoriesCache (snd (assignCategoryId rawPayee (Some rules) w)) = None"
proof -
  have g: "getCategoryId name w' = (Inl (Error (''Failed to fetch categories: '' @ msg)), w')"
    if "name \<noteq> []" "categoriesCache w' = None" "categoriesApi w' = Inl msg" for name w'
    using that by (simp add: getCategoryId_def getCategoriesMap_def)
  have lk: "lookupCategory cn w' = (Inr None, w')"
    if "categoriesCache w' = None" "categoriesApi w' = Inl msg" for cn w'
    using that g[of _ w'] by (auto simp: lookupCategory_def split: option.splits)
  have lr: "categoriesCache (learn sp found w') = categoriesCache w'
          \<and> categoriesApi (learn sp found w') = categoriesApi w'" for sp found w'
    by (auto simp: learn_def saveMemory_def Let_def split: option.splits)
  show ?thesis
    using assms g[of _ w] lk lr
    by (auto simp: assignCategoryId_def Let_def)
qed

theorem category_fetch_failure_is_caught_witness:
  "categoriesCache offlineWorld = None \<and> categoriesApi offlineWorld = Inl ''Network Error''
   \<and> getCategoryId ''Shopping'' offlineWorld
       = (Inl (Error (''Failed to fetch categories: '' @ ''Network Error'')), offlineWorld)
   \<and> fst (assignCategoryId ''ACME CORP 55'' (Some [(''acme'', ''Shopping'')]) offlineWorld) = Inr None
   \<and> categoriesCache (snd (assignCategoryId ''ACME CORP 55'' (Some [(''acme'', ''Shopping'')]) offlineWorld))
       = None"
proof -
  have h1: "categoriesCache offlineWorld = None"
    by code_simp
  have h2: "categoriesApi offlineWorld = Inl ''Network Error''"
    by code_simp
  from category_fetch_failure_is_caught[OF h1 h2, of "''ACME CORP 55''" "[(''acme'', ''Shopping'')]"] h1 h2
  show ?thesis by simp
qed

text \<open>
  The claim as it is written fails: with the categories endpoint down, the lookup of the
  rule's category raises, and \<open>assignCategoryId\<close> still returns normally, with \<open>null\<close>.
\<close>

theorem category_fetch_failure_counterexample:
  "fst (getCategoryId ''Shopping'' offlineWorld)
       = Inl (Error ''Failed to fetch categories: Network Error'')
   \<and> fst (assignCategoryId ''ACME CORP 55'' (Some [(''acme'', ''Shopping'')]) offlineWorld) = Inr None"
  by code_simp


section \<open>Deduplication and the loop over the movements: properties\<close>


lemma processMovement_new:
  assumes "simpleKeyOf P (date m) (amount m) \<notin> existingSimpleKeys r"
    and "generateTransactionFingerprint P m \<notin> existingFingerprints r"
    and "withRetry (assignCategoryId (payee m) (categoryRules cfg)) 2 None (state r) = (result, w')"
  shows "processMovement P cfg r m =
           r\<lparr>newTransactions := newTransactions r @
                  [toTransaction cfg P m (case result of Inr categoryId \<Rightarrow> categoryId | Inl err \<Rightarrow> None)],
             existingSimpleKeys := insert (simpleKeyOf P (date m) (amount m)) (existingSimpleKeys r),
             existingFingerprints := insert (generateTransactionFingerprint P m) (existingFingerprints r),
             processingErrors := processingErrors r @
                  (case result of
                     Inl err \<Rightarrow> [\<lparr>pe_transaction = m, pe_error = message err, pe_step = categorization\<rparr>]
                   | Inr categoryId \<Rightarrow> []),
             state := w'\<rparr>"
  using assms by (simp add: processMovement_def Let_def)

lemma processMovements_Nil: "processMovements P cfg r [] = r"
  by (simp add: processMovements_def)

lemma processMovements_Cons:
  "processMovements P cfg r (m # ms) = processMovements P cfg (processMovement P cfg r m) ms"
  by (simp add: processMovements_def)









lemma initialRun_fields:
  "newTransactions (initialRun P existing w) = []"
  "skippedDuplicates (initialRun P existing w) = []"
  "processingErrors (initialRun P existing w) = []"
  "state (initialRun P existing w) = w"
  by (simp_all add: initialRun_def)




lemma initialRun_no_existing:
  "existingSimpleKeys (initialRun P [] w) = {}"
  "existingFingerprints (initialRun P [] w) = {}"
  by (simp_all add: initialRun_def)




section \<open>Partial failure and the run summary: properties\<close>




lemma uberTrip_categorization_fails:
  "withRetry (assignCategoryId (payee uberTrip) (categoryRules nullRulesConfig)) 2 None demoWorld
     = (Inl (TypeError ''Cannot convert undefined or null to object''),
        demoWorld\<lparr>memoryCache := Some [(''acme corp'', ''Food'')]\<rparr>)"
  by (simp add: numeral_2_eq_2 uberTrip_def nullRulesConfig_def assignCategoryId_def
        sanitizePayee_def forbidden_def trim_def isWhitespace_def loadMemory_def demoWorld_def
        Let_def)

lemma uberTrip_run:
  "newTransactions (processMovements wholeAmounts nullRulesConfig (initialRun wholeAmounts [] demoWorld) [uberTrip])
     = [toTransaction nullRulesConfig wholeAmounts uberTrip None]"
  "processingErrors (processMovements wholeAmounts nullRulesConfig (initialRun wholeAmounts [] demoWorld) [uberTrip])
     = [\<lparr>pe_transaction = uberTrip, pe_error = ''Cannot convert undefined or null to object'',
         pe_step = categorization\<rparr>]"
  "skippedDuplicates (processMovements wholeAmounts nullRulesConfig (initialRun wholeAmounts [] demoWorld) [uberTrip])
     = []"
proof -
  let ?rE = "initialRun wholeAmounts [] demoWorld"
  have k: "simpleKeyOf wholeAmounts (date uberTrip) (amount uberTrip) \<notin> existingSimpleKeys ?rE"
    and f: "generateTransactionFingerprint wholeAmounts uberTrip \<notin> existingFingerprints ?rE"
    by (simp_all add: initialRun_no_existing)
  have c: "withRetry (assignCategoryId (payee uberTrip) (categoryRules nullRulesConfig)) 2 None (state ?rE)
     = (Inl (TypeError ''Cannot convert undefined or null to object''),
        demoWorld\<lparr>memoryCache := Some [(''acme corp'', ''Food'')]\<rparr>)"
    by (simp only: initialRun_fields uberTrip_categorization_fails)
  note step = processMovement_new[OF k f c]
  show "newTransactions (processMovements wholeAmounts nullRulesConfig ?rE [uberTrip])
     = [toTransaction nullRulesConfig wholeAmounts uberTrip None]"
    by (simp add: processMovements_Cons processMovements_Nil step initialRun_fields)
  show "processingErrors (processMovements wholeAmounts nullRulesConfig ?rE [uberTrip])
     = [\<lparr>pe_transaction = uberTrip, pe_error = ''Cannot convert undefined or null to object'',
         pe_step = categorization\<rparr>]"
    by (simp add: processMovements_Cons processMovements_Nil step initialRun_fields)
  show "skippedDuplicates (processMovements wholeAmounts nullRulesConfig ?rE [uberTrip]) = []"
    by (simp add: processMovements_Cons processMovements_Nil step initialRun_fields)
qed



lemma batchArray_single: "batchArray [t] 50 = [[t]]"
  by (simp add: batchArray.simps)

lemma gmailOnly_fields:
  "gmailFetch (gmailOnly ms) = Inr ms"
  "lmFetch (gmailOnly ms) = Inr []"
  "postTransactions (gmailOnly ms) i batch = None"
  by (simp_all add: gmailOnly_def)

lemma uberTrip_sync:
  "fst (sync wholeAmounts (gmailOnly [uberTrip]) nullRulesConfig False demoWorld)
     = Some \<lparr>success = True, processed = 1, inserted = 1, skipped = 0, errors = 1,
              dryRun = False, batches = Some 1, insertionErrors = Some [],
              summaryProcessingErrors =
                Some [\<lparr>pe_transaction = uberTrip,
                        pe_error = ''Cannot convert undefined or null to object'',
                        pe_step = categorization\<rparr>]\<rparr>"
proof -
  have g: "gmailConfigured nullRulesConfig"
    by (simp add: nullRulesConfig_def)
  show ?thesis
    by (simp add: sync_def Let_def g gmailOnly_fields uberTrip_run batchArray_single
          insertBatches_def)
qed


lemma insertion_errors_collected:
  "snd (foldl (\<lambda>(totalInserted, insertionErrors) (i, batch).
              case post i batch of
                None \<Rightarrow> (totalInserted + length batch, insertionErrors)
              | Some err \<Rightarrow>
                  (totalInserted,
                   insertionErrors @ [\<lparr>batchIndex = i, batchSize = length batch, ie_error = message err\<rparr>]))
           acc xs)
     = snd acc @ concat (map (\<lambda>(i, batch). case post i batch of
                                  None \<Rightarrow> []
                                | Some err \<Rightarrow> [\<lparr>batchIndex = i, batchSize = length batch,
                                                ie_error = message err\<rparr>]) xs)"
proof (induction xs arbitrary: acc)
  case Nil
  show ?case by simp
next
  case (Cons x xs)
  show ?case
    by (cases acc; cases x) (simp add: Cons.IH split: option.splits)
qed

lemma insertBatches_no_errors:
  "snd (insertBatches post bs) = [] \<longleftrightarrow> (\<forall>i<length bs. post i (bs ! i) = None)"
proof -
  have "snd (insertBatches post bs) = [] \<longleftrightarrow>
          (\<forall>(i, batch) \<in> set (zip [0..<length bs] bs). post i batch = None)"
    unfolding insertBatches_def insertion_errors_collected
    by (auto split: option.splits)
  also have "\<dots> \<longleftrightarrow> (\<forall>i<length bs. post i (bs ! i) = None)"
    by (fastforce simp: in_set_zip)
  finally show ?thesis .
qed

lemma batchArray_Nil: "batchArray [] n = []"
  by (simp add: batchArray.simps)

text \<open>
  Claim C6. When \<open>sync\<close> returns a summary, movements were fetched and the existing
  transactions too, and the summary carries \<open>success\<close>, \<open>processed\<close>, \<open>inserted\<close>, \<open>skipped\<close>
  and \<open>errors\<close>; over the loop's result and the batches of 50 made of its new transactions,
  \<open>success\<close> is false exactly when the run is live and the insertion of some batch failed.
  Processing errors do not touch it: whenever \<open>success\<close> holds, \<open>errors\<close> counts the
  processing errors, however many there are.
\<close>

theorem sync_success:
  assumes "fst (sync P net cfg isDryRun w) = Some s"
  shows "\<exists>movements existing.
           gmailConfigured cfg \<and> gmailFetch net = Inr movements \<and> movements \<noteq> []
         \<and> lmFetch net = Inr existing
         \<and> (let r = processMovements P cfg (initialRun P existing w) movements;
                 bs = batchArray (newTransactions r) 50
             in (\<not> success s \<longleftrightarrow>
                   \<not> isDryRun \<and> (\<exists>i<length bs. postTransactions net i (bs ! i) \<noteq> None))
              \<and> (success s \<longrightarrow> errors s = length (processingErrors r))
              \<and> processed s = length movements
              \<and> skipped s = length (skippedDuplicates r))"
proof -
  from assms obtain movements where gm: "gmailConfigured cfg" "gmailFetch net = Inr movements"
      "movements \<noteq> []"
    by (cases "gmailFetch net") (auto simp: sync_def Let_def split: if_splits)
  with assms obtain existing where lm: "lmFetch net = Inr existing"
    by (cases "lmFetch net") (auto simp: sync_def Let_def)
  let ?r = "processMovements P cfg (initialRun P existing w) movements"
  let ?bs = "batchArray (newTransactions ?r) 50"
  let ?ins = "insertBatches (postTransactions net) ?bs"
  have body: "(\<not> success s \<longleftrightarrow>
                   \<not> isDryRun \<and> (\<exists>i<length ?bs. postTransactions net i (?bs ! i) \<noteq> None))
              \<and> (success s \<longrightarrow> errors s = length (processingErrors ?r))
              \<and> processed s = length movements
              \<and> skipped s = length (skippedDuplicates ?r)"
  proof (cases "newTransactions ?r = []")
    case True
    with assms gm lm have "s = \<lparr>success = True, processed = length movements, inserted = 0,
                            skipped = length (skippedDuplicates ?r),
                            errors = length (processingErrors ?r), dryRun = False,
                            batches = None, insertionErrors = None,
                            summaryProcessingErrors = None\<rparr>"
      by (simp add: sync_def Let_def)
    with True show ?thesis by (simp add: batchArray_Nil)
  next
    case new: False
    show ?thesis
    proof (cases isDryRun)
      case True
      with assms gm lm new have "s = \<lparr>success = True, processed = length movements,
                            inserted = length (newTransactions ?r),
                            skipped = length (skippedDuplicates ?r),
                            errors = length (processingErrors ?r), dryRun = True,
                            batches = None, insertionErrors = None,
                            summaryProcessingErrors = None\<rparr>"
        by (simp add: sync_def Let_def)
      with True show ?thesis by simp
    next
      case False
      with assms gm lm new have "s = \<lparr>success = (length (snd ?ins) = 0), processed = length movements,
                                 inserted = fst ?ins,
                                 skipped = length (skippedDuplicates ?r),
                                 errors = length (processingErrors ?r) + length (snd ?ins),
                                 dryRun = False, batches = Some (length ?bs),
                                 insertionErrors = Some (snd ?ins),
                                 summaryProcessingErrors = Some (processingErrors ?r)\<rparr>"
        by (simp add: sync_def Let_def split: prod.splits)
      with False insertBatches_no_errors[of "postTransactions net" ?bs] show ?thesis
        by auto
    qed
  qed
  show ?thesis
    unfolding Let_def using gm lm body by blast
qed

lemma uberTrip_sync_insert_fails:
  "fst (sync wholeAmounts (insertFails [uberTrip]) nullRulesConfig False demoWorld)
     = Some \<lparr>success = False, processed = 1, inserted = 0, skipped = 0, errors = 2,
              dryRun = False, batches = Some 1,
              insertionErrors = Some [\<lparr>batchIndex = 0, batchSize = 1,
                                       ie_error = ''Request failed with status code 500''\<rparr>],
              summaryProcessingErrors =
                Some [\<lparr>pe_transaction = uberTrip,
                        pe_error = ''Cannot convert undefined or null to object'',
                        pe_step = categorization\<rparr>]\<rparr>"
proof -
  have g: "gmailConfigured nullRulesConfig"
    by (simp add: nullRulesConfig_def)
  have n: "gmailFetch (insertFails [uberTrip]) = Inr [uberTrip]"
    "lmFetch (insertFails [uberTrip]) = Inr []"
    "postTransactions (insertFails [uberTrip]) = (\<lambda>i batch. Some (Error ''Request failed with status code 500''))"
    by (simp_all add: insertFails_def)
  show ?thesis
    by (simp add: sync_def Let_def g n uberTrip_run batchArray_single insertBatches_def)
qed

theorem sync_success_witness:
  "fst (sync wholeAmounts (gmailOnly [uberTrip]) nullRulesConfig False demoWorld)
     = Some \<lparr>success = True, processed = 1, inserted = 1, skipped = 0, errors = 1,
              dryRun = False, batches = Some 1, insertionErrors = Some [],
              summaryProcessingErrors =
                Some [\<lparr>pe_transaction = uberTrip,
                        pe_error = ''Cannot convert undefined or null to object'',
                        pe_step = categorization\<rparr>]\<rparr>
   \<and> (\<exists>movements existing.
           gmailFetch (gmailOnly [uberTrip]) = Inr movements \<and> movements \<noteq> []
         \<and> lmFetch (gmailOnly [uberTrip]) = Inr existing
         \<and> (\<forall>i<length (batchArray (newTransactions
                  (processMovements wholeAmounts nullRulesConfig (initialRun wholeAmounts existing demoWorld) movements)) 50).
               postTransactions (gmailOnly [uberTrip]) i
                 (batchArray (newTransactions
                    (processMovements wholeAmounts nullRulesConfig (initialRun wholeAmounts existing demoWorld) movements)) 50 ! i)
                 = None)
         \<and> 1 = length (processingErrors
                  (processMovements wholeAmounts nullRulesConfig (initialRun wholeAmounts existing demoWorld) movements)))
   \<and> map_option success (fst (sync wholeAmounts (insertFails [uberTrip]) nullRulesConfig False demoWorld))
       = Some False
   \<and> (\<exists>movements existing.
           gmailFetch (insertFails [uberTrip]) = Inr movements \<and> movements \<noteq> []
         \<and> lmFetch (insertFails [uberTrip]) = Inr existing
         \<and> (\<exists>i<length (batchArray (newTransactions
                  (processMovements wholeAmounts nullRulesConfig (initialRun wholeAmounts existing demoWorld) movements)) 50).
               postTransactions (insertFails [uberTrip]) i
                 (batchArray (newTransactions
                    (processMovements wholeAmounts nullRulesConfig (initialRun wholeAmounts existing demoWorld) movements)) 50 ! i)
                 \<noteq> None))"
proof -
  note h1 = uberTrip_sync
  note h2 = uberTrip_sync_insert_fails
  have a: "\<exists>movements existing.
           gmailFetch (gmailOnly [uberTrip]) = Inr movements \<and> movements \<noteq> []
         \<and> lmFetch (gmailOnly [uberTrip]) = Inr existing
         \<and> (\<forall>i<length (batchArray (newTransactions
                  (processMovements wholeAmounts nullRulesConfig (initialRun wholeAmounts existing demoWorld) movements)) 50).
               postTransactions (gmailOnly [uberTrip]) i
                 (batchArray (newTransactions
                    (processMovements wholeAmounts nullRulesConfig (initialRun wholeAmounts existing demoWorld) movements)) 50 ! i)
                 = None)
         \<and> 1 = length (processingErrors
                  (processMovements wholeAmounts nullRulesConfig (initialRun wholeAmounts existing demoWorld) movements))"
    using sync_success[OF h1] unfolding Let_def by (simp add: gmailOnly_fields)
  have b: "\<exists>movements existing.
           gmailFetch (insertFails [uberTrip]) = Inr movements \<and> movements \<noteq> []
         \<and> lmFetch (insertFails [uberTrip]) = Inr existing
         \<and> (\<exists>i<length (batchArray (newTransactions
                  (processMovements wholeAmounts nullRulesConfig (initialRun wholeAmounts existing demoWorld) movements)) 50).
               postTransactions (insertFails [uberTrip]) i
                 (batchArray (newTransactions
                    (processMovements wholeAmounts nullRulesConfig (initialRun wholeAmounts existing demoWorld) movements)) 50 ! i)
                 \<noteq> None)"
    using sync_success[OF h2] unfolding Let_def by simp blast
  from a b h1 h2 show ?thesis by simp
qed


section \<open>Fingerprint: properties\<close>







section \<open>Keys of the memory\<close>

lemma cafeBar_rebuild:
  "buildMemory (collectStats [cafeBar, cafeBar]) = [(''Cafe / Bar'', ''Food'')]"
  by (simp add: buildMemory_def collectStats_def recordCategory_def preferredCategory_def
        learnable_def cafeBar_def trim_def isWhitespace_def Let_def)

lemma sanitizePayee_longPayee:
  "sanitizePayee longPayee = replicate 254 (CHR ''a'') @ '' ''"
proof -
  have f: "filter (\<lambda>c. \<not> forbidden c) longPayee = longPayee"
    by (simp add: longPayee_def forbidden_def)
  have t: "trim longPayee = longPayee"
    by (simp add: longPayee_def trim_def isWhitespace_def numeral_eq_Suc)
  have "take 255 longPayee = replicate 254 (CHR ''a'') @ '' ''"
    by (simp add: longPayee_def)
  moreover have "longPayee \<noteq> []"
    by (simp add: longPayee_def)
  ultimately show ?thesis
    by (simp add: sanitizePayee_def f t)
qed

lemma set_trim: "set (trim s) \<subseteq> set s"
proof -
  have "set (rev (dropWhile isWhitespace (rev (dropWhile isWhitespace s))))
          \<subseteq> set (dropWhile isWhitespace s)"
    using set_dropWhileD[of _ isWhitespace "rev (dropWhile isWhitespace s)"] by auto
  also have "\<dots> \<subseteq> set s"
    using set_dropWhileD[of _ isWhitespace s] by auto
  finally show ?thesis by (simp add: trim_def)
qed

text \<open>What \<open>sanitizePayee\<close> does guarantee: at most 255 characters, none of them among the
  six that are stripped.\<close>

lemma sanitizePayee_key:
  "length (sanitizePayee rawPayee) \<le> 255 \<and> (\<forall>c \<in> set (sanitizePayee rawPayee). \<not> forbidden c)"
proof -
  have "set (take 255 (trim (filter (\<lambda>c. \<not> forbidden c) rawPayee)))
          \<subseteq> set (filter (\<lambda>c. \<not> forbidden c) rawPayee)"
    using set_take_subset[of 255 "trim (filter (\<lambda>c. \<not> forbidden c) rawPayee)"] set_trim by blast
  then show ?thesis
    by (auto simp: sanitizePayee_def)
qed

lemma longPayee_learned:
  "memoryFile (snd (assignCategoryId longPayee (Some []) aaaWorld))
     = Some [(''aaa'', ''Food''), (sanitizePayee longPayee, ''Food'')]"
proof -
  let ?k = "replicate 254 (CHR ''a'') @ '' ''"
  have sp: "sanitizePayee longPayee = ?k"
    by (rule sanitizePayee_longPayee)
  have mv: "memoryView aaaWorld = [(''aaa'', ''Food'')]"
    by (simp add: memoryView_def aaaWorld_def demoWorld_def loadMemory_def)
  have inc: "str_includes (toLowerCase ?k) (toLowerCase ''aaa'')"
    by (simp add: toLowerCase_def toLowerCase_char_def numeral_eq_Suc)
  then have res: "resolveCategory ?k [] [(''aaa'', ''Food'')] = (Some ''Food'', Some memory_exact)"
    by (simp add: resolveCategory_def matchRules_def matchMemoryExact_def matchMemoryFuzzy_def
          truthy_def)
  have ne: "?k \<noteq> ''aaa''" "?k \<noteq> []"
    by (simp_all add: numeral_eq_Suc)
  have dw: "diskWritable aaaWorld"
    by (simp add: aaaWorld_def demoWorld_def)
  have "learn ?k (Some ''Food'', Some memory_exact) (aaaWorld\<lparr>memoryCache := Some [(''aaa'', ''Food'')]\<rparr>)
          = saveMemory [(''aaa'', ''Food''), (?k, ''Food'')]
              (aaaWorld\<lparr>memoryCache := Some [(''aaa'', ''Food''), (?k, ''Food'')]\<rparr>)"
    using ne by (simp add: learn_cases[where mem = "[(''aaa'', ''Food'')]"] truthy_def)
  with assignCategoryId_memory[of longPayee "[]" aaaWorld] ne dw show ?thesis
    by (simp add: sp mv res saveMemory_def)
qed

text \<open>
  Claim C10 does not hold of the code. \<open>buildMemoryFromLunchMoney\<close> keys the memory by the
  trimmed payee of the history and never calls \<open>sanitizePayee\<close>: a payee with a slash,
  seen twice with the same category, becomes a key that contains the slash, and is saved.
  And \<open>sanitizePayee\<close> trims before it cuts at 255 characters, so the key that
  \<open>assignCategoryId\<close> learns for a long payee can end in a space.
\<close>

theorem memory_keys_not_sanitized:
  "fst (buildMemoryFromLunchMoney (Inr [cafeBar, cafeBar]) True demoWorld)
     = Inr [(''Cafe / Bar'', ''Food'')]
   \<and> memoryFile (snd (buildMemoryFromLunchMoney (Inr [cafeBar, cafeBar]) True demoWorld))
     = Some [(''Cafe / Bar'', ''Food'')]
   \<and> forbidden (CHR ''/'') \<and> sanitizePayee ''Cafe / Bar'' = ''Cafe  Bar''
   \<and> map fst (the (memoryFile (snd (assignCategoryId longPayee (Some []) aaaWorld))))
     = [''aaa'', sanitizePayee longPayee]
   \<and> length (sanitizePayee longPayee) = 255
   \<and> last (sanitizePayee longPayee) = CHR '' ''"
proof -
  have "sanitizePayee ''Cafe / Bar'' = ''Cafe  Bar''"
    by (simp add: sanitizePayee_def forbidden_def trim_def isWhitespace_def)
  moreover have "forbidden (CHR ''/'')"
    by (simp add: forbidden_def)
  moreover have "diskWritable demoWorld"
    by (simp add: demoWorld_def)
  ultimately show ?thesis
    by (simp add: buildMemoryFromLunchMoney_def cafeBar_rebuild saveMemory_def Let_def
          longPayee_learned sanitizePayee_longPayee)
qed


section \<open>Rebuilding the memory from the history: properties\<close>


























end
